theory Spec2Isabelle
  imports Complex_Main
begin

section \<open>Numbers of the calculators\<close>

text \<open>
  The three scripts compute with Python numbers: the widgets deliver \<open>int\<close> and \<open>float\<close>
  values, every \<open>/\<close> is true division, and \<open>float("inf")\<close> is the only non-finite literal.
  A number is modelled as a real, or one of the three special values of a Python float.
  Arithmetic on finite values is exact: rounding, overflow and underflow of binary64 are
  outside the model, and so is the sign of zero; only lines 13 to 18 of \<open>calcy.py\<close> are
  also given with binary64 rounding, in a section of their own. The special values follow IEEE 754 as
  Python does (\<open>inf * 0\<close> and \<open>inf - inf\<close> are \<open>nan\<close>, every comparison with \<open>nan\<close> is
  false), and a zero divisor raises \<open>ZeroDivisionError\<close> whatever the dividend.
\<close>

datatype pyfloat = Fin real | PInf | NInf | NaN

datatype error = ZeroDivisionError | TypeError | KeyError | ValueError

text \<open>\<open>math.pi\<close> is the binary64 number nearest to \<open>\<pi>\<close>; this is its exact value.\<close>

definition math_pi :: real where
  "math_pi = 884279719003555 / 281474976710656"

fun py_add :: "pyfloat \<Rightarrow> pyfloat \<Rightarrow> pyfloat" where
  "py_add (Fin a) (Fin b) = Fin (a + b)"
| "py_add NaN _ = NaN"
| "py_add _ NaN = NaN"
| "py_add PInf NInf = NaN"
| "py_add NInf PInf = NaN"
| "py_add PInf _ = PInf"
| "py_add _ PInf = PInf"
| "py_add NInf _ = NInf"
| "py_add _ NInf = NInf"

text \<open>The sign of an infinite product; a zero factor gives \<open>nan\<close>.\<close>

definition inf_times :: "bool \<Rightarrow> real \<Rightarrow> pyfloat" where
  "inf_times positive b =
     (if b = 0 then NaN else if (0 < b) = positive then PInf else NInf)"

fun py_mul :: "pyfloat \<Rightarrow> pyfloat \<Rightarrow> pyfloat" where
  "py_mul (Fin a) (Fin b) = Fin (a * b)"
| "py_mul NaN _ = NaN"
| "py_mul _ NaN = NaN"
| "py_mul PInf (Fin b) = inf_times True b"
| "py_mul NInf (Fin b) = inf_times False b"
| "py_mul (Fin a) PInf = inf_times True a"
| "py_mul (Fin a) NInf = inf_times False a"
| "py_mul PInf PInf = PInf"
| "py_mul NInf NInf = PInf"
| "py_mul PInf NInf = NInf"
| "py_mul NInf PInf = NInf"

text \<open>\<open>x ** 2\<close>.\<close>

definition py_sq :: "pyfloat \<Rightarrow> pyfloat" where
  "py_sq x = (case x of Fin a \<Rightarrow> Fin (a ^ 2) | PInf \<Rightarrow> PInf | NInf \<Rightarrow> PInf | NaN \<Rightarrow> NaN)"

text \<open>The quotient by a divisor that is not zero.\<close>

fun py_quot :: "pyfloat \<Rightarrow> pyfloat \<Rightarrow> pyfloat" where
  "py_quot (Fin a) (Fin b) = Fin (a / b)"
| "py_quot NaN _ = NaN"
| "py_quot _ NaN = NaN"
| "py_quot (Fin a) _ = Fin 0"
| "py_quot PInf (Fin b) = inf_times True b"
| "py_quot NInf (Fin b) = inf_times False b"
| "py_quot _ _ = NaN"

text \<open>\<open>a / b\<close>: Python raises on a zero divisor before it looks at the dividend.\<close>

definition py_truediv :: "pyfloat \<Rightarrow> pyfloat \<Rightarrow> error + pyfloat" where
  "py_truediv a b = (if b = Fin 0 then Inl ZeroDivisionError else Inr (py_quot a b))"

text \<open>\<open>a > b\<close> and \<open>a >= b\<close>.\<close>

fun py_gt :: "pyfloat \<Rightarrow> pyfloat \<Rightarrow> bool" where
  "py_gt (Fin a) (Fin b) = (b < a)"
| "py_gt NaN _ = False"
| "py_gt _ NaN = False"
| "py_gt PInf PInf = False"
| "py_gt PInf _ = True"
| "py_gt _ PInf = False"
| "py_gt NInf _ = False"
| "py_gt _ NInf = True"

fun py_ge :: "pyfloat \<Rightarrow> pyfloat \<Rightarrow> bool" where
  "py_ge (Fin a) (Fin b) = (b \<le> a)"
| "py_ge NaN _ = False"
| "py_ge _ NaN = False"
| "py_ge PInf _ = True"
| "py_ge _ PInf = False"
| "py_ge _ NInf = True"
| "py_ge NInf _ = False"

section \<open>Turning cost: \<open>calcy.py\<close>\<close>

text \<open>
  The five values \<open>calculate_cost_for_row\<close> returns, in the order of its \<open>return\<close>:
  \<open>material_cost, machining_cost, total_cost, machining_time, total_time_min\<close>.
\<close>

record turning_output =
  materialCost :: pyfloat
  machiningCost :: pyfloat
  totalCost :: pyfloat
  machiningTime :: pyfloat
  totalTime :: pyfloat

text \<open>Lines 13 to 18 of \<open>calcy.py\<close> (and 82 to 85 of \<open>new.py\<close>): no operation there can raise.\<close>

definition material_cost_of :: "pyfloat \<Rightarrow> pyfloat \<Rightarrow> pyfloat \<Rightarrow> pyfloat \<Rightarrow> pyfloat" where
  "material_cost_of L_raw D_raw density cost_per_kg =
     (let volume_mm3 = py_mul (py_mul (Fin math_pi) (py_sq (py_quot D_raw (Fin 2)))) L_raw;
          volume_cm3 = py_quot volume_mm3 (Fin 1000);
          weight_kg = py_quot (py_mul volume_cm3 density) (Fin 1000)
      in py_mul weight_kg cost_per_kg)"

text \<open>Line 22: \<open>spindle_speed = (1000.0 * cutting_speed) / (math.pi * D_final)\<close>.\<close>

definition spindle_speed_of :: "pyfloat \<Rightarrow> pyfloat \<Rightarrow> error + pyfloat" where
  "spindle_speed_of cutting_speed D_final =
     py_truediv (py_mul (Fin 1000) cutting_speed) (py_mul (Fin math_pi) D_final)"

text \<open>
  Line 24: \<open>L_raw / (feed_rate * spindle_speed) if spindle_speed > 0 and feed_rate > 0
  else float("inf")\<close>.
\<close>

definition machining_time_of :: "pyfloat \<Rightarrow> pyfloat \<Rightarrow> pyfloat \<Rightarrow> error + pyfloat" where
  "machining_time_of L_raw feed_rate spindle_speed =
     (if py_gt spindle_speed (Fin 0) \<and> py_gt feed_rate (Fin 0)
      then py_truediv L_raw (py_mul feed_rate spindle_speed)
      else Inr PInf)"

text \<open>Lines 26 to 32, shared by both variants.\<close>

definition costs_of :: "pyfloat \<Rightarrow> pyfloat \<Rightarrow> pyfloat \<Rightarrow> pyfloat \<Rightarrow> turning_output" where
  "costs_of material_cost machining_time MHR extra_time =
     (let total_time_min = py_add machining_time extra_time;
          total_time_hr = py_quot total_time_min (Fin 60);
          machining_cost = py_mul total_time_hr MHR;
          total_cost = py_add material_cost machining_cost
      in \<lparr>materialCost = material_cost, machiningCost = machining_cost,
          totalCost = total_cost, machiningTime = machining_time,
          totalTime = total_time_min\<rparr>)"

definition calculate_cost_for_row ::
  "pyfloat \<Rightarrow> pyfloat \<Rightarrow> pyfloat \<Rightarrow> pyfloat \<Rightarrow> pyfloat \<Rightarrow> pyfloat \<Rightarrow> pyfloat \<Rightarrow> pyfloat \<Rightarrow> pyfloat
     \<Rightarrow> error + turning_output" where
  "calculate_cost_for_row L_raw D_raw D_final density cost_per_kg feed_rate cutting_speed MHR extra_time =
     (let material_cost = material_cost_of L_raw D_raw density cost_per_kg
      in case spindle_speed_of cutting_speed D_final of
           Inl e \<Rightarrow> Inl e
         | Inr spindle_speed \<Rightarrow>
             (case machining_time_of L_raw feed_rate spindle_speed of
                Inl e \<Rightarrow> Inl e
              | Inr machining_time \<Rightarrow> Inr (costs_of material_cost machining_time MHR extra_time)))"

section \<open>Turning cost: the inline variant of \<open>new.py\<close>\<close>

text \<open>
  Line 89 of \<open>new.py\<close>: \<open>L_raw / (feed_rate * spindle_speed) if spindle_speed > 0
  else float("inf")\<close>. The feed rate is not tested.
\<close>

definition new_machining_time_of :: "pyfloat \<Rightarrow> pyfloat \<Rightarrow> pyfloat \<Rightarrow> error + pyfloat" where
  "new_machining_time_of L_raw feed_rate spindle_speed =
     (if py_gt spindle_speed (Fin 0)
      then py_truediv L_raw (py_mul feed_rate spindle_speed)
      else Inr PInf)"

text \<open>
  Lines 82 to 95 of \<open>new.py\<close>, the body of the button handler, as a function of the widget
  values it reads; it computes the same five variables.
\<close>

definition new_calculate_cost ::
  "pyfloat \<Rightarrow> pyfloat \<Rightarrow> pyfloat \<Rightarrow> pyfloat \<Rightarrow> pyfloat \<Rightarrow> pyfloat \<Rightarrow> pyfloat \<Rightarrow> pyfloat \<Rightarrow> pyfloat
     \<Rightarrow> error + turning_output" where
  "new_calculate_cost L_raw D_raw D_final density cost_per_kg feed_rate cutting_speed MHR extra_time =
     (let material_cost = material_cost_of L_raw D_raw density cost_per_kg
      in case spindle_speed_of cutting_speed D_final of
           Inl e \<Rightarrow> Inl e
         | Inr spindle_speed \<Rightarrow>
             (case new_machining_time_of L_raw feed_rate spindle_speed of
                Inl e \<Rightarrow> Inl e
              | Inr machining_time \<Rightarrow> Inr (costs_of material_cost machining_time MHR extra_time)))"

section \<open>Thread rolling: \<open>thread_calculator.py\<close>\<close>

text \<open>
  The eight values the script computes from line 38 to line 47:
  \<open>N, F, T, material_cost, machine_cost, labor_cost, tooling_cost, total_cost\<close>.
\<close>

record thread_output =
  t_N :: pyfloat
  t_F :: pyfloat
  t_T :: pyfloat
  t_material_cost :: pyfloat
  t_machine_cost :: pyfloat
  t_labor_cost :: pyfloat
  t_tooling_cost :: pyfloat
  t_total_cost :: pyfloat

text \<open>Lines 38 to 47, as a function of the eleven widget values.\<close>

definition thread_calculator ::
  "pyfloat \<Rightarrow> pyfloat \<Rightarrow> pyfloat \<Rightarrow> pyfloat \<Rightarrow> pyfloat \<Rightarrow> pyfloat \<Rightarrow> pyfloat \<Rightarrow> pyfloat \<Rightarrow> pyfloat
     \<Rightarrow> pyfloat \<Rightarrow> pyfloat \<Rightarrow> error + thread_output" where
  "thread_calculator D P L S density cost_per_kg volume machine_rate operator_rate
       tool_cost tool_life_parts =
     (case py_truediv (py_mul (Fin 1000) S) (py_mul (Fin math_pi) D) of
        Inl e \<Rightarrow> Inl e
      | Inr N \<Rightarrow>
          (let F = py_mul N P
           in case py_truediv L F of
                Inl e \<Rightarrow> Inl e
              | Inr T \<Rightarrow>
                  (let material_cost =
                         py_quot (py_mul (py_mul volume density) cost_per_kg) (Fin 1000);
                       machine_cost = py_mul (py_quot machine_rate (Fin 60)) T;
                       labor_cost = py_mul (py_quot operator_rate (Fin 60)) T
                   in case py_truediv tool_cost tool_life_parts of
                        Inl e \<Rightarrow> Inl e
                      | Inr tooling_cost \<Rightarrow>
                          (let total_cost =
                                 py_add (py_add (py_add material_cost machine_cost) labor_cost)
                                   tooling_cost
                           in Inr \<lparr>t_N = N, t_F = F, t_T = T,
                                   t_material_cost = material_cost,
                                   t_machine_cost = machine_cost,
                                   t_labor_cost = labor_cost,
                                   t_tooling_cost = tooling_cost,
                                   t_total_cost = total_cost\<rparr>))))"

section \<open>Lines 13 to 18 with rounding\<close>

text \<open>
  Python's float is binary64: the result of an operation on finite values is the exact
  result rounded to the nearest number with a significand of 53 bits, ties to the even
  significand. \<open>scale_significand\<close> brings a positive magnitude \<open>m\<close> into the interval from
  \<open>2 ^ 52\<close> to \<open>2 ^ 53\<close>, keeping \<open>m * u\<close> fixed; its first argument bounds the number of
  steps, and 2200 steps reach every normal binary64 magnitude. Overflow to infinity and
  the subnormal numbers are outside this function.
\<close>

definition round_half_even :: "real \<Rightarrow> int" where
  "round_half_even x =
     (let f = \<lfloor>x\<rfloor>; d = x - of_int f
      in if d < 1/2 then f else if 1/2 < d then f + 1 else if even f then f else f + 1)"

fun scale_significand :: "nat \<Rightarrow> real \<Rightarrow> real \<Rightarrow> real \<times> real" where
  "scale_significand 0 m u = (m, u)"
| "scale_significand (Suc n) m u =
     (if m < 2 ^ 52 then scale_significand n (2 * m) (u / 2)
      else if 2 ^ 53 \<le> m then scale_significand n (m / 2) (2 * u)
      else (m, u))"

definition binary64 :: "real \<Rightarrow> real" where
  "binary64 x =
     (if x = 0 then 0
      else case scale_significand 2200 \<bar>x\<bar> 1 of
             (m, u) \<Rightarrow> sgn x * (of_int (round_half_even m) * u))"

text \<open>A rounding applied to the result of an operation; the special values are kept.\<close>

definition rounded :: "(real \<Rightarrow> real) \<Rightarrow> pyfloat \<Rightarrow> pyfloat" where
  "rounded rnd x = (case x of Fin a \<Rightarrow> Fin (rnd a) | PInf \<Rightarrow> PInf | NInf \<Rightarrow> NInf | NaN \<Rightarrow> NaN)"

text \<open>
  Lines 13 to 18 of \<open>calcy.py\<close> again, operation by operation, the result of each one
  rounded by \<open>rnd\<close>: \<open>binary64\<close> gives the bits Python computes, and the identity gives
  \<open>material_cost_of\<close>.
\<close>

definition material_cost_rounded ::
  "(real \<Rightarrow> real) \<Rightarrow> pyfloat \<Rightarrow> pyfloat \<Rightarrow> pyfloat \<Rightarrow> pyfloat \<Rightarrow> pyfloat" where
  "material_cost_rounded rnd L_raw D_raw density cost_per_kg =
     (let volume_mm3 =
            rounded rnd (py_mul
              (rounded rnd (py_mul (Fin math_pi)
                 (rounded rnd (py_sq (rounded rnd (py_quot D_raw (Fin 2)))))))
              L_raw);
          volume_cm3 = rounded rnd (py_quot volume_mm3 (Fin 1000));
          weight_kg = rounded rnd (py_quot (rounded rnd (py_mul volume_cm3 density)) (Fin 1000))
      in rounded rnd (py_mul weight_kg cost_per_kg))"

section \<open>\<open>calculate_cost_for_row\<close> on numpy scalars\<close>

text \<open>
  A row of a frame whose columns are all numeric reaches the function as numpy scalars.
  Their products, sums and comparisons are those of Python floats, but a division by zero
  does not raise: it gives an infinity with the sign of the dividend, or \<open>nan\<close> for a zero
  or \<open>nan\<close> dividend, and a \<open>RuntimeWarning\<close> that nothing in the script looks at.
\<close>

definition np_truediv :: "pyfloat \<Rightarrow> pyfloat \<Rightarrow> pyfloat" where
  "np_truediv a b =
     (if b = Fin 0
      then (case a of Fin x \<Rightarrow> inf_times True x | PInf \<Rightarrow> PInf | NInf \<Rightarrow> NInf | NaN \<Rightarrow> NaN)
      else py_quot a b)"

text \<open>
  The body of \<open>calculate_cost_for_row\<close> when \<open>L_raw\<close>, \<open>D_final\<close> and \<open>extra_time\<close> are numpy
  scalars: the divisor of line 22 is \<open>math.pi * D_final\<close> and the operands of line 24 are
  \<open>L_raw\<close> and a multiple of \<open>spindle_speed\<close>, so both divisions are numpy's and the call
  always returns.
\<close>

definition calculate_cost_for_row_numpy ::
  "pyfloat \<Rightarrow> pyfloat \<Rightarrow> pyfloat \<Rightarrow> pyfloat \<Rightarrow> pyfloat \<Rightarrow> pyfloat \<Rightarrow> pyfloat \<Rightarrow> pyfloat \<Rightarrow> pyfloat
     \<Rightarrow> turning_output" where
  "calculate_cost_for_row_numpy L_raw D_raw D_final density cost_per_kg feed_rate cutting_speed MHR extra_time =
     (let material_cost = material_cost_of L_raw D_raw density cost_per_kg;
          spindle_speed = np_truediv (py_mul (Fin 1000) cutting_speed) (py_mul (Fin math_pi) D_final);
          machining_time =
            (if py_gt spindle_speed (Fin 0) \<and> py_gt feed_rate (Fin 0)
             then np_truediv L_raw (py_mul feed_rate spindle_speed)
             else PInf)
      in costs_of material_cost machining_time MHR extra_time)"

section \<open>Bulk calculation: lines 156 to 201 of \<open>calcy.py\<close>\<close>

text \<open>
  The uploaded frame is its column names and its rows of cells. When every column is
  numeric, \<open>apply\<close> passes each row as numpy scalars (an empty cell is \<open>nan\<close>); when some
  column holds anything else, the row has dtype \<open>object\<close> and its cells are Python objects,
  numbers or, here, strings. The rows of one frame are all of the same kind.
\<close>

datatype pyval = Num pyfloat | Str string

datatype row = NumpyRow "pyfloat list" | ObjectRow "pyval list"

text \<open>\<open>row[k]\<close>: the cell under the column \<open>k\<close>, or \<open>KeyError\<close> when no column has that name.\<close>

definition getitem :: "string list \<Rightarrow> 'a list \<Rightarrow> string \<Rightarrow> error + 'a" where
  "getitem columns cells k =
     (case map_of (zip columns cells) k of None \<Rightarrow> Inl KeyError | Some v \<Rightarrow> Inr v)"

text \<open>
  \<open>calculate_cost_for_row\<close> called with Python objects for \<open>L_raw\<close>, \<open>D_final\<close> and
  \<open>extra_time\<close>. A string raises \<open>TypeError\<close> at the first operation that meets it: \<open>L_raw\<close>
  in the product of line 13, \<open>D_final\<close> in the product of line 22, \<open>extra_time\<close> in the sum
  of line 26, which is reached only if lines 22 and 24 did not raise.
\<close>

definition calculate_cost_for_cells ::
  "pyval \<Rightarrow> pyfloat \<Rightarrow> pyval \<Rightarrow> pyfloat \<Rightarrow> pyfloat \<Rightarrow> pyfloat \<Rightarrow> pyfloat \<Rightarrow> pyfloat \<Rightarrow> pyval
     \<Rightarrow> error + turning_output" where
  "calculate_cost_for_cells L_raw D_raw D_final density cost_per_kg feed_rate cutting_speed MHR extra_time =
     (case L_raw of
        Str _ \<Rightarrow> Inl TypeError
      | Num l \<Rightarrow>
          (case D_final of
             Str _ \<Rightarrow> Inl TypeError
           | Num d \<Rightarrow>
               (case extra_time of
                  Num x \<Rightarrow>
                    calculate_cost_for_row l D_raw d density cost_per_kg feed_rate cutting_speed MHR x
                | Str _ \<Rightarrow>
                    (case spindle_speed_of cutting_speed d of
                       Inl e \<Rightarrow> Inl e
                     | Inr spindle_speed \<Rightarrow>
                         (case machining_time_of l feed_rate spindle_speed of
                            Inl e \<Rightarrow> Inl e
                          | Inr machining_time \<Rightarrow> Inl TypeError)))))"

text \<open>
  The \<open>lambda row\<close> of lines 162 to 172: the three lookups are evaluated in the order of
  the keyword arguments, before the call.
\<close>

definition row_lambda ::
  "pyfloat \<Rightarrow> pyfloat \<Rightarrow> pyfloat \<Rightarrow> pyfloat \<Rightarrow> pyfloat \<Rightarrow> pyfloat \<Rightarrow> string list \<Rightarrow> row
     \<Rightarrow> error + turning_output" where
  "row_lambda D_raw_bulk density cost_per_kg feed_rate cutting_speed MHR columns r =
     (case r of
        NumpyRow cells \<Rightarrow>
          (case getitem columns cells ''length'' of
             Inl e \<Rightarrow> Inl e
           | Inr L_raw \<Rightarrow>
               (case getitem columns cells ''dia'' of
                  Inl e \<Rightarrow> Inl e
                | Inr D_final \<Rightarrow>
                    (case getitem columns cells ''chamfer'' of
                       Inl e \<Rightarrow> Inl e
                     | Inr extra_time \<Rightarrow>
                         Inr (calculate_cost_for_row_numpy L_raw D_raw_bulk D_final density
                                cost_per_kg feed_rate cutting_speed MHR extra_time))))
      | ObjectRow cells \<Rightarrow>
          (case getitem columns cells ''length'' of
             Inl e \<Rightarrow> Inl e
           | Inr L_raw \<Rightarrow>
               (case getitem columns cells ''dia'' of
                  Inl e \<Rightarrow> Inl e
                | Inr D_final \<Rightarrow>
                    (case getitem columns cells ''chamfer'' of
                       Inl e \<Rightarrow> Inl e
                     | Inr extra_time \<Rightarrow>
                         calculate_cost_for_cells L_raw D_raw_bulk D_final density cost_per_kg
                           feed_rate cutting_speed MHR extra_time))))"

text \<open>
  \<open>df_results.apply(..., axis=1)\<close> on a frame with rows and columns: the function is
  applied to the rows in order, and an exception in one call leaves \<open>apply\<close> at once.
\<close>

fun apply_rows :: "('r \<Rightarrow> error + 'a) \<Rightarrow> 'r list \<Rightarrow> error + 'a list" where
  "apply_rows f [] = Inr []"
| "apply_rows f (r # rs) =
     (case f r of
        Inl e \<Rightarrow> Inl e
      | Inr y \<Rightarrow> (case apply_rows f rs of Inl e \<Rightarrow> Inl e | Inr ys \<Rightarrow> Inr (y # ys)))"

text \<open>
  The \<open>try\<close> block of the bulk branch. \<open>Inl e\<close> is the exception its \<open>except\<close> clauses catch
  and show with \<open>st.error\<close>; no result table exists then. \<open>Inr outs\<close> is the five result
  columns, one entry for each row. On a frame without rows (or without columns) \<open>apply\<close>
  with \<open>result_type='expand'\<close> does not call the function and returns a copy of the frame;
  the assignment of lines 160 and 161 to five columns then raises \<open>ValueError\<close>, unless the
  frame has five columns of its own.
\<close>

definition bulk_calculation ::
  "pyfloat \<Rightarrow> pyfloat \<Rightarrow> pyfloat \<Rightarrow> pyfloat \<Rightarrow> pyfloat \<Rightarrow> pyfloat \<Rightarrow> string list \<Rightarrow> row list
     \<Rightarrow> error + turning_output list" where
  "bulk_calculation D_raw_bulk density cost_per_kg feed_rate cutting_speed MHR columns rows =
     (if rows = [] \<or> columns = []
      then (if length columns = 5 then Inr [] else Inl ValueError)
      else apply_rows (row_lambda D_raw_bulk density cost_per_kg feed_rate cutting_speed MHR columns)
             rows)"

section \<open>Auxiliary facts\<close>

lemma math_pi_pos: "0 < math_pi"
  by (simp add: math_pi_def)

text \<open>On finite inputs the material cost is finite, and the two divisions by 1000 are kept apart.\<close>

lemma material_cost_of_Fin:
  "material_cost_of (Fin L_raw) (Fin D_raw) (Fin density) (Fin cost_per_kg) =
     Fin ((math_pi * (D_raw / 2)\<^sup>2 * L_raw / 1000 * density) / 1000 * cost_per_kg)"
  by (simp add: material_cost_of_def py_sq_def)

lemma spindle_speed_of_Fin:
  "D_final \<noteq> 0 \<Longrightarrow>
   spindle_speed_of (Fin cutting_speed) (Fin D_final) =
     Inr (Fin ((1000 * cutting_speed) / (math_pi * D_final)))"
  using math_pi_pos by (simp add: spindle_speed_of_def py_truediv_def)

lemma costs_of_Fin:
  "costs_of (Fin m) (Fin t) (Fin MHR) (Fin extra_time) =
     \<lparr>materialCost = Fin m, machiningCost = Fin ((t + extra_time) / 60 * MHR),
      totalCost = Fin (m + (t + extra_time) / 60 * MHR), machiningTime = Fin t,
      totalTime = Fin (t + extra_time)\<rparr>"
  by (simp add: costs_of_def)

text \<open>
  When the final diameter, the feed rate and the cutting speed are positive, the guard of line 24
  holds and the divisor \<open>feed_rate * spindle_speed\<close> is not zero.
\<close>

lemma calculate_guard_passes:
  assumes "0 < D_final" and "0 < feed_rate" and "0 < cutting_speed"
  shows "calculate_cost_for_row (Fin L_raw) D_raw (Fin D_final) density
             cost_per_kg (Fin feed_rate) (Fin cutting_speed) MHR extra_time =
           Inr (costs_of (material_cost_of (Fin L_raw) D_raw density cost_per_kg)
                  (Fin (L_raw / (feed_rate * ((1000 * cutting_speed) / (math_pi * D_final)))))
                  MHR extra_time)"
proof -
  let ?s = "(1000 * cutting_speed) / (math_pi * D_final)"
  from assms math_pi_pos have s: "0 < ?s" by simp
  from assms have sp: "spindle_speed_of (Fin cutting_speed) (Fin D_final) = Inr (Fin ?s)"
    by (simp add: spindle_speed_of_Fin)
  from assms math_pi_pos have fs: "feed_rate * ?s \<noteq> 0" by simp
  from s assms fs have mt: "machining_time_of (Fin L_raw) (Fin feed_rate) (Fin ?s) =
      Inr (Fin (L_raw / (feed_rate * ?s)))"
    by (simp add: machining_time_of_def py_truediv_def)
  show ?thesis
    unfolding calculate_cost_for_row_def Let_def sp by (simp only: mt sum.case)
qed

text \<open>A call with finite lengths, rates and a final diameter other than zero returns.\<close>

lemma calculate_returns:
  assumes "D_final \<noteq> 0"
  shows "\<exists>t. calculate_cost_for_row (Fin L_raw) D_raw (Fin D_final) density cost_per_kg
            (Fin feed_rate) (Fin cutting_speed) MHR extra_time =
          Inr (costs_of (material_cost_of (Fin L_raw) D_raw density cost_per_kg) t MHR extra_time)"
proof -
  let ?s = "(1000 * cutting_speed) / (math_pi * D_final)"
  have sp: "spindle_speed_of (Fin cutting_speed) (Fin D_final) = Inr (Fin ?s)"
    using assms by (rule spindle_speed_of_Fin)
  have "\<exists>t. machining_time_of (Fin L_raw) (Fin feed_rate) (Fin ?s) = Inr t"
    by (simp add: machining_time_of_def py_truediv_def)
  then obtain t where "machining_time_of (Fin L_raw) (Fin feed_rate) (Fin ?s) = Inr t" ..
  then show ?thesis
    unfolding calculate_cost_for_row_def Let_def sp by auto
qed

lemma materialCost_costs_of: "materialCost (costs_of m t MHR extra_time) = m"
  by (simp add: costs_of_def Let_def)

lemma calculate_materialCost:
  assumes "calculate_cost_for_row L_raw D_raw D_final density cost_per_kg
             feed_rate cutting_speed MHR extra_time = Inr out"
  shows "materialCost out = material_cost_of L_raw D_raw density cost_per_kg"
  using assms
  by (auto simp: calculate_cost_for_row_def Let_def materialCost_costs_of split: sum.splits)

text \<open>The two guards differ in the test of the feed rate only.\<close>

lemma machining_time_guards_agree:
  "py_gt feed_rate (Fin 0) \<Longrightarrow>
   new_machining_time_of L_raw feed_rate spindle_speed =
     machining_time_of L_raw feed_rate spindle_speed"
  by (simp add: machining_time_of_def new_machining_time_of_def)

lemma same_result_positive_feed:
  "py_gt feed_rate (Fin 0) \<Longrightarrow>
   new_calculate_cost L_raw D_raw D_final density cost_per_kg feed_rate cutting_speed MHR extra_time =
   calculate_cost_for_row L_raw D_raw D_final density cost_per_kg feed_rate cutting_speed MHR extra_time"
  by (simp add: calculate_cost_for_row_def new_calculate_cost_def machining_time_guards_agree
      split: sum.splits)

text \<open>With a feed rate of zero, \<open>new.py\<close> divides by zero where \<open>calcy.py\<close> answers infinity.\<close>

lemma new_zero_feed_raises:
  "new_calculate_cost (Fin 250) (Fin 38) (Fin 36) (Fin (157/20)) (Fin 55) (Fin 0) (Fin 20)
     (Fin 800) (Fin 5) = Inl ZeroDivisionError"
  by (simp add: new_calculate_cost_def spindle_speed_of_def py_truediv_def math_pi_def
      new_machining_time_of_def)

lemma calcy_zero_feed_returns:
  "calculate_cost_for_row (Fin 250) (Fin 38) (Fin 36) (Fin (157/20)) (Fin 55) (Fin 0) (Fin 20)
     (Fin 800) (Fin 5) =
   Inr \<lparr>materialCost = material_cost_of (Fin 250) (Fin 38) (Fin (157/20)) (Fin 55),
        machiningCost = PInf, totalCost = PInf, machiningTime = PInf, totalTime = PInf\<rparr>"
  by (simp add: calculate_cost_for_row_def spindle_speed_of_def py_truediv_def math_pi_def
      machining_time_of_def costs_of_def material_cost_of_Fin inf_times_def)

text \<open>The thread calculator on finite inputs, and the numbers of its literal scenario.\<close>

lemma thread_calculator_Fin:
  assumes "D \<noteq> 0" and "(1000 * S) / (math_pi * D) * P \<noteq> 0" and "tool_life_parts \<noteq> 0"
  shows "thread_calculator (Fin D) (Fin P) (Fin L) (Fin S) (Fin density) (Fin cost_per_kg)
           (Fin volume) (Fin machine_rate) (Fin operator_rate) (Fin tool_cost)
           (Fin tool_life_parts) =
         Inr \<lparr>t_N = Fin ((1000 * S) / (math_pi * D)),
              t_F = Fin ((1000 * S) / (math_pi * D) * P),
              t_T = Fin (L / ((1000 * S) / (math_pi * D) * P)),
              t_material_cost = Fin (volume * density * cost_per_kg / 1000),
              t_machine_cost = Fin ((machine_rate / 60) * (L / ((1000 * S) / (math_pi * D) * P))),
              t_labor_cost = Fin ((operator_rate / 60) * (L / ((1000 * S) / (math_pi * D) * P))),
              t_tooling_cost = Fin (tool_cost / tool_life_parts),
              t_total_cost =
                Fin (volume * density * cost_per_kg / 1000 +
                     (machine_rate / 60) * (L / ((1000 * S) / (math_pi * D) * P)) +
                     (operator_rate / 60) * (L / ((1000 * S) / (math_pi * D) * P)) +
                     tool_cost / tool_life_parts)\<rparr>"
proof -
  from assms(1) math_pi_pos
  have n: "py_truediv (py_mul (Fin 1000) (Fin S)) (py_mul (Fin math_pi) (Fin D)) =
      Inr (Fin ((1000 * S) / (math_pi * D)))"
    by (simp add: py_truediv_def)
  from assms(2)
  have t: "py_truediv (Fin L) (py_mul (Fin ((1000 * S) / (math_pi * D))) (Fin P)) =
      Inr (Fin (L / ((1000 * S) / (math_pi * D) * P)))"
    by (simp add: py_truediv_def)
  from assms(3)
  have tc: "py_truediv (Fin tool_cost) (Fin tool_life_parts) = Inr (Fin (tool_cost / tool_life_parts))"
    by (simp add: py_truediv_def)
  show ?thesis
    unfolding thread_calculator_def Let_def n sum.case t tc
    by (simp only: py_mul.simps py_add.simps py_quot.simps)
qed

lemma thread_scenario_bounds:
  "\<bar>(1000 * 20) / (math_pi * 10) - 636.6\<bar> < (0.05::real)"
  "\<bar>(1000 * 20) / (math_pi * 10) * (3/2) - 954.9\<bar> < (0.05::real)"
  "\<bar>20 / ((1000 * 20) / (math_pi * 10) * (3/2)) - 0.02094\<bar> < (0.000005::real)"
  by (simp_all add: math_pi_def)

text \<open>With Python numbers a final diameter of zero raises at line 22.\<close>

lemma python_zero_diameter_raises:
  "calculate_cost_for_row L_raw D_raw (Fin 0) density cost_per_kg
     feed_rate cutting_speed MHR extra_time = Inl ZeroDivisionError"
  by (simp add: calculate_cost_for_row_def spindle_speed_of_def py_truediv_def)

text \<open>When the guard of line 24 fails, the times are infinite and the costs follow the sign of the rate.\<close>

lemma costs_of_PInf:
  "costs_of (Fin m) PInf (Fin MHR) (Fin extra_time) =
     \<lparr>materialCost = Fin m,
      machiningCost = (if 0 < MHR then PInf else if MHR = 0 then NaN else NInf),
      totalCost = (if 0 < MHR then PInf else if MHR = 0 then NaN else NInf),
      machiningTime = PInf, totalTime = PInf\<rparr>"
  by (simp add: costs_of_def inf_times_def)

text \<open>Rounding: the identity changes nothing, and \<open>binary64\<close> is computed step by step.\<close>

lemma rounded_identity: "rounded (\<lambda>x. x) v = v"
  by (cases v) (simp_all add: rounded_def)

lemma material_cost_rounded_identity:
  "material_cost_rounded (\<lambda>x. x) L_raw D_raw density cost_per_kg =
     material_cost_of L_raw D_raw density cost_per_kg"
  by (simp add: material_cost_rounded_def material_cost_of_def rounded_identity)

lemma material_cost_rounded_Fin:
  "material_cost_rounded rnd (Fin L_raw) (Fin D_raw) (Fin density) (Fin cost_per_kg) =
     Fin (rnd (rnd (rnd (rnd (rnd (rnd (math_pi * rnd ((rnd (D_raw / 2))\<^sup>2)) * L_raw) / 1000)
                          * density) / 1000) * cost_per_kg))"
  by (simp add: material_cost_rounded_def rounded_def py_sq_def)

lemma scale_significand_numeral:
  "scale_significand (numeral k) m u =
     (if m < 2 ^ 52 then scale_significand (pred_numeral k) (2 * m) (u / 2)
      else if 2 ^ 53 \<le> m then scale_significand (pred_numeral k) (m / 2) (2 * u)
      else (m, u))"
  by (simp add: numeral_eq_Suc)

lemmas binary64_eval = binary64_def scale_significand_numeral round_half_even_def Let_def

lemma binary64_density: "binary64 (157 / 20) = 4419157134357299 / 562949953421312"
  by (simp add: binary64_eval)

lemma binary64_volume_mm3:
  "binary64 (binary64 (math_pi * binary64 ((binary64 (38 / 2))\<^sup>2)) * 250) =
     152218331604139 / 536870912"
  by (simp add: binary64_eval math_pi_def)

lemma binary64_two_divisions:
  "binary64 (binary64 (binary64 (binary64 (152218331604139 / 536870912 / 1000)
       * (4419157134357299 / 562949953421312)) / 1000) * 55) =
     8614086530837645 / 70368744177664"
  by (simp add: binary64_eval)

lemma binary64_one_division:
  "binary64 (binary64 (binary64 (152218331604139 / 536870912
       * (4419157134357299 / 562949953421312)) / 1000000) * 55) =
     8614086530837643 / 70368744177664"
  by (simp add: binary64_eval)



text \<open>What the row function does on the two kinds of row.\<close>

lemma row_lambda_numpy:
  "getitem columns cells ''length'' = Inr L_raw \<Longrightarrow> getitem columns cells ''dia'' = Inr D_final \<Longrightarrow>
   getitem columns cells ''chamfer'' = Inr extra_time \<Longrightarrow>
   row_lambda D_raw_bulk density cost_per_kg feed_rate cutting_speed MHR columns (NumpyRow cells) =
     Inr (calculate_cost_for_row_numpy L_raw D_raw_bulk D_final density cost_per_kg feed_rate
            cutting_speed MHR extra_time)"
  by (simp add: row_lambda_def)



lemma getitem_three_columns:
  "getitem [''length'', ''dia'', ''chamfer''] [a, b, c] ''length'' = Inr a"
  "getitem [''length'', ''dia'', ''chamfer''] [a, b, c] ''dia'' = Inr b"
  "getitem [''length'', ''dia'', ''chamfer''] [a, b, c] ''chamfer'' = Inr c"
  by (simp_all add: getitem_def)



lemma numpy_zero_diameter:
  "calculate_cost_for_row_numpy (Fin 250) (Fin 38) (Fin 0) (Fin (157/20)) (Fin 55) (Fin (1/5))
     (Fin 20) (Fin 800) (Fin 5) =
   \<lparr>materialCost = material_cost_of (Fin 250) (Fin 38) (Fin (157/20)) (Fin 55),
    machiningCost = Fin (200 / 3),
    totalCost = py_add (material_cost_of (Fin 250) (Fin 38) (Fin (157/20)) (Fin 55)) (Fin (200 / 3)),
    machiningTime = Fin 0, totalTime = Fin 5\<rparr>"
  by (simp add: calculate_cost_for_row_numpy_def np_truediv_def inf_times_def costs_of_def
      material_cost_of_Fin)

text \<open>A file with the three column names and no rows ends in \<open>ValueError\<close>.\<close>

lemma bulk_header_only:
  "bulk_calculation D_raw_bulk density cost_per_kg feed_rate cutting_speed MHR
     [''length'', ''dia'', ''chamfer''] [] = Inl ValueError"
  by (simp add: bulk_calculation_def)

section \<open>The turning engine\<close>

text \<open>
  C1. For finite inputs with \<open>D_final > 0\<close>, \<open>feed_rate > 0\<close> and \<open>cutting_speed > 0\<close>,
  \<open>calculate_cost_for_row\<close> returns, with
  spindle speed \<open>(1000 * cutting_speed) / (math.pi * D_final)\<close>,
  machining time \<open>L_raw / (feed_rate * spindle_speed)\<close>,
  total time \<open>machining_time + extra_time\<close> and
  machining cost \<open>(total_time / 60) * MHR\<close>.
\<close>

theorem turning_formulas:
  assumes "0 < D_final" and "0 < feed_rate" and "0 < cutting_speed"
  shows "let spindle_speed = (1000 * cutting_speed) / (math_pi * D_final);
             machining_time = L_raw / (feed_rate * spindle_speed);
             total_time = machining_time + extra_time;
             machining_cost = (total_time / 60) * MHR
         in spindle_speed_of (Fin cutting_speed) (Fin D_final) = Inr (Fin spindle_speed) \<and>
            calculate_cost_for_row (Fin L_raw) (Fin D_raw) (Fin D_final) (Fin density)
                (Fin cost_per_kg) (Fin feed_rate) (Fin cutting_speed) (Fin MHR) (Fin extra_time) =
              Inr \<lparr>materialCost = material_cost_of (Fin L_raw) (Fin D_raw) (Fin density) (Fin cost_per_kg),
                   machiningCost = Fin machining_cost,
                   totalCost = py_add (material_cost_of (Fin L_raw) (Fin D_raw) (Fin density) (Fin cost_per_kg))
                                 (Fin machining_cost),
                   machiningTime = Fin machining_time,
                   totalTime = Fin total_time\<rparr>"
proof -
  from assms have sp: "spindle_speed_of (Fin cutting_speed) (Fin D_final) =
      Inr (Fin ((1000 * cutting_speed) / (math_pi * D_final)))"
    by (simp add: spindle_speed_of_Fin)
  from calculate_guard_passes [OF assms] sp show ?thesis
    unfolding Let_def by (simp only: material_cost_of_Fin costs_of_Fin py_add.simps simp_thms)
qed

theorem turning_formulas_witness:
  "(0::real) < 36 \<and> (0::real) < 1/5 \<and> (0::real) < 20 \<and>
   (let spindle_speed = (1000 * 20) / (math_pi * 36);
        machining_time = 250 / (1/5 * spindle_speed);
        total_time = machining_time + 5;
        machining_cost = (total_time / 60) * 800
    in spindle_speed_of (Fin 20) (Fin 36) = Inr (Fin spindle_speed) \<and>
       calculate_cost_for_row (Fin 250) (Fin 38) (Fin 36) (Fin (157/20))
           (Fin 55) (Fin (1/5)) (Fin 20) (Fin 800) (Fin 5) =
         Inr \<lparr>materialCost = material_cost_of (Fin 250) (Fin 38) (Fin (157/20)) (Fin 55),
              machiningCost = Fin machining_cost,
              totalCost = py_add (material_cost_of (Fin 250) (Fin 38) (Fin (157/20)) (Fin 55))
                            (Fin machining_cost),
              machiningTime = Fin machining_time,
              totalTime = Fin total_time\<rparr>)"
proof -
  have h1: "(0::real) < 36" and h2: "(0::real) < 1/5" and h3: "(0::real) < 20"
    by simp_all
  from turning_formulas [OF h1 h2 h3, of 250 5 800 38 "157/20" 55] h1 h2 h3
  show ?thesis by blast
qed

text \<open>
  C2, amended. When the spindle speed is computed (the final diameter is not zero) and the
  guard of line 24 fails, that is \<open>spindle_speed \<le> 0\<close> or \<open>feed_rate \<le> 0\<close>, the call does
  not raise, whatever the machine hour rate is, and the machining time and the total time
  are \<open>+inf\<close>. The machining cost and the total cost are \<open>+inf\<close> when the machine hour rate
  is positive, \<open>nan\<close> when it is zero (\<open>inf * 0\<close>) and \<open>-inf\<close> when it is negative.
\<close>

theorem guard_gives_infinity:
  assumes "spindle_speed_of (Fin cutting_speed) (Fin D_final) = Inr (Fin spindle_speed)"
    and "spindle_speed \<le> 0 \<or> feed_rate \<le> 0"
  shows "calculate_cost_for_row (Fin L_raw) (Fin D_raw) (Fin D_final) (Fin density)
           (Fin cost_per_kg) (Fin feed_rate) (Fin cutting_speed) (Fin MHR) (Fin extra_time) =
         Inr \<lparr>materialCost = material_cost_of (Fin L_raw) (Fin D_raw) (Fin density) (Fin cost_per_kg),
              machiningCost = (if 0 < MHR then PInf else if MHR = 0 then NaN else NInf),
              totalCost = (if 0 < MHR then PInf else if MHR = 0 then NaN else NInf),
              machiningTime = PInf, totalTime = PInf\<rparr>"
proof -
  from assms(2)
  have mt: "machining_time_of (Fin L_raw) (Fin feed_rate) (Fin spindle_speed) = Inr PInf"
    by (auto simp: machining_time_of_def)
  show ?thesis
    unfolding calculate_cost_for_row_def Let_def assms(1)
    by (simp only: mt sum.case material_cost_of_Fin costs_of_PInf)
qed

theorem guard_gives_infinity_witness:
  "spindle_speed_of (Fin 20) (Fin 36) = Inr (Fin (1000 * 20 / (math_pi * 36))) \<and>
   (1000 * 20 / (math_pi * 36) \<le> 0 \<or> (0::real) \<le> 0) \<and>
   calculate_cost_for_row (Fin 250) (Fin 38) (Fin 36) (Fin (157/20))
       (Fin 55) (Fin 0) (Fin 20) (Fin 800) (Fin 5) =
     Inr \<lparr>materialCost = material_cost_of (Fin 250) (Fin 38) (Fin (157/20)) (Fin 55),
          machiningCost = PInf, totalCost = PInf, machiningTime = PInf, totalTime = PInf\<rparr> \<and>
   calculate_cost_for_row (Fin 250) (Fin 38) (Fin 36) (Fin (157/20))
       (Fin 55) (Fin 0) (Fin 20) (Fin (- 800)) (Fin 5) =
     Inr \<lparr>materialCost = material_cost_of (Fin 250) (Fin 38) (Fin (157/20)) (Fin 55),
          machiningCost = NInf, totalCost = NInf, machiningTime = PInf, totalTime = PInf\<rparr>"
proof -
  have h1: "spindle_speed_of (Fin 20) (Fin 36) = Inr (Fin (1000 * 20 / (math_pi * 36)))"
    by (rule spindle_speed_of_Fin) simp
  have h2: "1000 * 20 / (math_pi * 36) \<le> 0 \<or> (0::real) \<le> 0" by simp
  from guard_gives_infinity [OF h1 h2, of 250 38 "157/20" 55 800 5]
    guard_gives_infinity [OF h1 h2, of 250 38 "157/20" 55 "- 800" 5] h1 h2
  show ?thesis by simp
qed

text \<open>
  With a feed rate of zero and a machine hour rate of zero the call returns, and its
  total cost is \<open>nan\<close>, not \<open>+inf\<close>.
\<close>

theorem zero_machine_rate_counterexample:
  "calculate_cost_for_row (Fin 250) (Fin 38) (Fin 36) (Fin (157/20))
       (Fin 55) (Fin 0) (Fin 20) (Fin 0) (Fin 5) =
     Inr \<lparr>materialCost = material_cost_of (Fin 250) (Fin 38) (Fin (157/20)) (Fin 55),
          machiningCost = NaN, totalCost = NaN, machiningTime = PInf, totalTime = PInf\<rparr>"
  by (simp add: calculate_cost_for_row_def spindle_speed_of_def py_truediv_def math_pi_def
      machining_time_of_def costs_of_def material_cost_of_Fin inf_times_def)

text \<open>
  C3. The material cost is \<open>weight_kg * cost_per_kg\<close>, where the raw volume
  \<open>math.pi * (D_raw / 2) ** 2 * L_raw\<close> is divided by 1000 to give \<open>volume_cm3\<close> and
  \<open>volume_cm3 * density\<close> is divided by 1000 again to give \<open>weight_kg\<close>: two divisions, each
  one rounded, not one division by a combined constant. The exact material cost of the
  engine is this chain with the identity for rounding, and every call with a final diameter
  other than zero returns it. With binary64 rounding and the default inputs (length 250,
  diameter 38, density 7.85, cost 55) the chain gives the float 122.41353219391222, where
  one division by 1000000 would give 122.41353219391219.
\<close>

theorem material_cost_two_stage:
  "material_cost_rounded rnd (Fin L_raw) (Fin D_raw) (Fin density) (Fin cost_per_kg) =
     (let volume_mm3 = rnd (rnd (math_pi * rnd ((rnd (D_raw / 2))\<^sup>2)) * L_raw);
          volume_cm3 = rnd (volume_mm3 / 1000);
          weight_kg = rnd (rnd (volume_cm3 * density) / 1000)
      in Fin (rnd (weight_kg * cost_per_kg))) \<and>
   material_cost_of L D \<rho> c = material_cost_rounded (\<lambda>x. x) L D \<rho> c \<and>
   (D_final \<noteq> 0 \<longrightarrow>
      (\<exists>out. calculate_cost_for_row (Fin L_raw) (Fin D_raw) (Fin D_final) (Fin density)
                (Fin cost_per_kg) (Fin feed_rate) (Fin cutting_speed) (Fin MHR)
                (Fin extra_time) = Inr out \<and>
             materialCost out =
               material_cost_rounded (\<lambda>x. x) (Fin L_raw) (Fin D_raw) (Fin density)
                 (Fin cost_per_kg))) \<and>
   material_cost_rounded binary64 (Fin 250) (Fin 38) (Fin (binary64 (157 / 20))) (Fin 55) =
     Fin (8614086530837645 / 70368744177664) \<and>
   (let volume_mm3 = binary64 (binary64 (math_pi * binary64 ((binary64 (38 / 2))\<^sup>2)) * 250)
    in binary64 (binary64 (binary64 (volume_mm3 * binary64 (157 / 20)) / 1000000) * 55)) =
     8614086530837643 / 70368744177664"
proof (intro conjI impI)
  show "material_cost_rounded rnd (Fin L_raw) (Fin D_raw) (Fin density) (Fin cost_per_kg) =
     (let volume_mm3 = rnd (rnd (math_pi * rnd ((rnd (D_raw / 2))\<^sup>2)) * L_raw);
          volume_cm3 = rnd (volume_mm3 / 1000);
          weight_kg = rnd (rnd (volume_cm3 * density) / 1000)
      in Fin (rnd (weight_kg * cost_per_kg)))"
    unfolding Let_def by (rule material_cost_rounded_Fin)
  show "material_cost_of L D \<rho> c = material_cost_rounded (\<lambda>x. x) L D \<rho> c"
    by (simp only: material_cost_rounded_identity)
  show "\<exists>out. calculate_cost_for_row (Fin L_raw) (Fin D_raw) (Fin D_final) (Fin density)
                (Fin cost_per_kg) (Fin feed_rate) (Fin cutting_speed) (Fin MHR)
                (Fin extra_time) = Inr out \<and>
             materialCost out =
               material_cost_rounded (\<lambda>x. x) (Fin L_raw) (Fin D_raw) (Fin density)
                 (Fin cost_per_kg)"
    if "D_final \<noteq> 0"
  proof -
    from calculate_returns [OF that] obtain out where
      out: "calculate_cost_for_row (Fin L_raw) (Fin D_raw) (Fin D_final) (Fin density)
              (Fin cost_per_kg) (Fin feed_rate) (Fin cutting_speed) (Fin MHR)
              (Fin extra_time) = Inr out"
      by blast
    from calculate_materialCost [OF out] out show ?thesis
      by (simp only: material_cost_rounded_identity) blast
  qed
  show "material_cost_rounded binary64 (Fin 250) (Fin 38) (Fin (binary64 (157 / 20))) (Fin 55) =
     Fin (8614086530837645 / 70368744177664)"
    by (simp only: material_cost_rounded_Fin binary64_volume_mm3 binary64_density
        binary64_two_divisions)
  show "(let volume_mm3 = binary64 (binary64 (math_pi * binary64 ((binary64 (38 / 2))\<^sup>2)) * 250)
    in binary64 (binary64 (binary64 (volume_mm3 * binary64 (157 / 20)) / 1000000) * 55)) =
     8614086530837643 / 70368744177664"
    unfolding Let_def
    by (simp only: binary64_volume_mm3 binary64_density binary64_one_division)
qed

theorem material_cost_two_stage_witness:
  "(36::real) \<noteq> 0 \<and>
   (\<exists>out. calculate_cost_for_row (Fin 250) (Fin 38) (Fin 36) (Fin (157/20))
             (Fin 55) (Fin (1/5)) (Fin 20) (Fin 800) (Fin 5) = Inr out \<and>
          materialCost out =
            material_cost_rounded (\<lambda>x. x) (Fin 250) (Fin 38) (Fin (157/20)) (Fin 55)) \<and>
   material_cost_of (Fin 250) (Fin 38) (Fin (157/20)) (Fin 55) =
     material_cost_rounded (\<lambda>x. x) (Fin 250) (Fin 38) (Fin (157/20)) (Fin 55)"
proof -
  have h: "(36::real) \<noteq> 0" by simp
  from material_cost_two_stage [of "\<lambda>x. x" 250 38 "157/20" 55 "Fin 250" "Fin 38"
      "Fin (157/20)" "Fin 55" 36 "1/5" 20 800 5] h
  show ?thesis by blast
qed

text \<open>
  C4. For an input whose fields are all positive (the extra time may be zero) and whose
  final diameter is below the raw diameter, the call returns a material cost and a machining
  cost that are finite and not negative, and the total cost is their sum.
\<close>

theorem valid_input_costs:
  assumes "0 < L_raw" and "0 < D_raw" and "0 < D_final" and "D_final < D_raw"
    and "0 < density" and "0 < cost_per_kg" and "0 < feed_rate" and "0 < cutting_speed"
    and "0 < MHR" and "0 \<le> extra_time"
  shows "\<exists>out m c.
           calculate_cost_for_row (Fin L_raw) (Fin D_raw) (Fin D_final) (Fin density)
             (Fin cost_per_kg) (Fin feed_rate) (Fin cutting_speed) (Fin MHR) (Fin extra_time) =
             Inr out \<and>
           materialCost out = Fin m \<and> 0 \<le> m \<and>
           machiningCost out = Fin c \<and> 0 \<le> c \<and>
           totalCost out = Fin (m + c)"
proof -
  let ?m = "(math_pi * (D_raw / 2)\<^sup>2 * L_raw / 1000 * density) / 1000 * cost_per_kg"
  let ?t = "L_raw / (feed_rate * ((1000 * cutting_speed) / (math_pi * D_final)))"
  let ?c = "(?t + extra_time) / 60 * MHR"
  from assms math_pi_pos have m: "0 \<le> ?m" by simp
  from assms math_pi_pos have "0 \<le> ?t" by simp
  with assms have c: "0 \<le> ?c" by simp
  let ?out = "\<lparr>materialCost = Fin ?m, machiningCost = Fin ?c, totalCost = Fin (?m + ?c),
               machiningTime = Fin ?t, totalTime = Fin (?t + extra_time)\<rparr>"
  have eq: "calculate_cost_for_row (Fin L_raw) (Fin D_raw) (Fin D_final) (Fin density)
          (Fin cost_per_kg) (Fin feed_rate) (Fin cutting_speed) (Fin MHR) (Fin extra_time) =
        Inr ?out"
    using calculate_guard_passes [OF assms(3) assms(7) assms(8)]
    by (simp only: material_cost_of_Fin costs_of_Fin)
  show ?thesis
  proof (intro exI conjI)
    show "calculate_cost_for_row (Fin L_raw) (Fin D_raw) (Fin D_final) (Fin density)
          (Fin cost_per_kg) (Fin feed_rate) (Fin cutting_speed) (Fin MHR) (Fin extra_time) =
        Inr ?out" by (rule eq)
    show "materialCost ?out = Fin ?m" by simp
    show "0 \<le> ?m" by (rule m)
    show "machiningCost ?out = Fin ?c" by simp
    show "0 \<le> ?c" by (rule c)
    show "totalCost ?out = Fin (?m + ?c)" by simp
  qed
qed

theorem valid_input_costs_witness:
  "((0::real) < 250 \<and> (0::real) < 38 \<and> (0::real) < 36 \<and> (36::real) < 38 \<and>
    (0::real) < 157/20 \<and> (0::real) < 55 \<and> (0::real) < 1/5 \<and> (0::real) < 20 \<and>
    (0::real) < 800 \<and> (0::real) \<le> 5) \<and>
   (\<exists>out m c.
     calculate_cost_for_row (Fin 250) (Fin 38) (Fin 36) (Fin (157/20))
       (Fin 55) (Fin (1/5)) (Fin 20) (Fin 800) (Fin 5) = Inr out \<and>
     materialCost out = Fin m \<and> 0 \<le> m \<and>
     machiningCost out = Fin c \<and> 0 \<le> c \<and>
     totalCost out = Fin (m + c))"
proof
  show "(0::real) < 250 \<and> (0::real) < 38 \<and> (0::real) < 36 \<and> (36::real) < 38 \<and>
    (0::real) < 157/20 \<and> (0::real) < 55 \<and> (0::real) < 1/5 \<and> (0::real) < 20 \<and>
    (0::real) < 800 \<and> (0::real) \<le> 5" by simp
  show "\<exists>out m c.
     calculate_cost_for_row (Fin 250) (Fin 38) (Fin 36) (Fin (157/20))
       (Fin 55) (Fin (1/5)) (Fin 20) (Fin 800) (Fin 5) = Inr out \<and>
     materialCost out = Fin m \<and> 0 \<le> m \<and>
     machiningCost out = Fin c \<and> 0 \<le> c \<and>
     totalCost out = Fin (m + c)"
    by (rule valid_input_costs) simp_all
qed

text \<open>
  C9. Where the final diameter and the feed rate are positive, \<open>calculate_cost_for_row\<close> of
  \<open>calcy.py\<close> and the inline computation of \<open>new.py\<close> give the same result, errors
  included; and wherever the two differ, the test \<open>feed_rate > 0\<close> is false.
\<close>

theorem variants_agree:
  "(py_gt D_final (Fin 0) \<and> py_gt feed_rate (Fin 0) \<longrightarrow>
      calculate_cost_for_row L_raw D_raw D_final density cost_per_kg feed_rate cutting_speed
          MHR extra_time =
        new_calculate_cost L_raw D_raw D_final density cost_per_kg feed_rate cutting_speed
          MHR extra_time) \<and>
   (calculate_cost_for_row L_raw D_raw D_final density cost_per_kg feed_rate cutting_speed
          MHR extra_time \<noteq>
        new_calculate_cost L_raw D_raw D_final density cost_per_kg feed_rate cutting_speed
          MHR extra_time \<longrightarrow>
      \<not> py_gt feed_rate (Fin 0))"
  using same_result_positive_feed
    [of feed_rate L_raw D_raw D_final density cost_per_kg cutting_speed MHR extra_time]
  by auto

theorem variants_agree_witness:
  "(py_gt (Fin 36) (Fin 0) \<and> py_gt (Fin (1/5)) (Fin 0) \<and>
      calculate_cost_for_row (Fin 250) (Fin 38) (Fin 36) (Fin (157/20)) (Fin 55) (Fin (1/5))
          (Fin 20) (Fin 800) (Fin 5) =
        new_calculate_cost (Fin 250) (Fin 38) (Fin 36) (Fin (157/20)) (Fin 55) (Fin (1/5))
          (Fin 20) (Fin 800) (Fin 5)) \<and>
   (calculate_cost_for_row (Fin 250) (Fin 38) (Fin 36) (Fin (157/20)) (Fin 55) (Fin 0)
          (Fin 20) (Fin 800) (Fin 5) \<noteq>
        new_calculate_cost (Fin 250) (Fin 38) (Fin 36) (Fin (157/20)) (Fin 55) (Fin 0)
          (Fin 20) (Fin 800) (Fin 5) \<and>
      \<not> py_gt (Fin 0) (Fin 0))"
  using variants_agree [of "Fin 36" "Fin (1/5)" "Fin 250" "Fin 38" "Fin (157/20)" "Fin 55"
      "Fin 20" "Fin 800" "Fin 5"]
    variants_agree [of "Fin 36" "Fin 0" "Fin 250" "Fin 38" "Fin (157/20)" "Fin 55"
      "Fin 20" "Fin 800" "Fin 5"]
  by (simp add: new_zero_feed_raises calcy_zero_feed_returns)

text \<open>
  C10. Two calls that agree on \<open>L_raw\<close>, \<open>D_raw\<close>, \<open>density\<close> and \<open>cost_per_kg\<close> and that
  both return, return the same material cost, whatever the other five arguments are: it is a
  function of those four alone.
\<close>

theorem material_cost_noninterference:
  assumes "calculate_cost_for_row L_raw D_raw D_final density cost_per_kg
             feed_rate cutting_speed MHR extra_time = Inr out"
    and "calculate_cost_for_row L_raw D_raw D_final' density cost_per_kg
             feed_rate' cutting_speed' MHR' extra_time' = Inr out'"
  shows "materialCost out = materialCost out' \<and>
         materialCost out = material_cost_of L_raw D_raw density cost_per_kg"
  using calculate_materialCost [OF assms(1)] calculate_materialCost [OF assms(2)] by simp

theorem material_cost_noninterference_witness:
  "calculate_cost_for_row (Fin 250) (Fin 38) (Fin 36) (Fin (157/20)) (Fin 55) (Fin (1/5))
       (Fin 20) (Fin 800) (Fin 5) =
     Inr (costs_of (material_cost_of (Fin 250) (Fin 38) (Fin (157/20)) (Fin 55))
            (Fin (250 / (1/5 * ((1000 * 20) / (math_pi * 36))))) (Fin 800) (Fin 5)) \<and>
   calculate_cost_for_row (Fin 250) (Fin 38) (Fin 12) (Fin (157/20)) (Fin 55) (Fin (1/2))
       (Fin 60) (Fin 100) (Fin 0) =
     Inr (costs_of (material_cost_of (Fin 250) (Fin 38) (Fin (157/20)) (Fin 55))
            (Fin (250 / (1/2 * ((1000 * 60) / (math_pi * 12))))) (Fin 100) (Fin 0)) \<and>
   materialCost (costs_of (material_cost_of (Fin 250) (Fin 38) (Fin (157/20)) (Fin 55))
            (Fin (250 / (1/5 * ((1000 * 20) / (math_pi * 36))))) (Fin 800) (Fin 5)) =
   materialCost (costs_of (material_cost_of (Fin 250) (Fin 38) (Fin (157/20)) (Fin 55))
            (Fin (250 / (1/2 * ((1000 * 60) / (math_pi * 12))))) (Fin 100) (Fin 0))"
proof -
  have h1: "calculate_cost_for_row (Fin 250) (Fin 38) (Fin 36) (Fin (157/20)) (Fin 55) (Fin (1/5))
       (Fin 20) (Fin 800) (Fin 5) =
     Inr (costs_of (material_cost_of (Fin 250) (Fin 38) (Fin (157/20)) (Fin 55))
            (Fin (250 / (1/5 * ((1000 * 20) / (math_pi * 36))))) (Fin 800) (Fin 5))"
    by (rule calculate_guard_passes) simp_all
  have h2: "calculate_cost_for_row (Fin 250) (Fin 38) (Fin 12) (Fin (157/20)) (Fin 55) (Fin (1/2))
       (Fin 60) (Fin 100) (Fin 0) =
     Inr (costs_of (material_cost_of (Fin 250) (Fin 38) (Fin (157/20)) (Fin 55))
            (Fin (250 / (1/2 * ((1000 * 60) / (math_pi * 12))))) (Fin 100) (Fin 0))"
    by (rule calculate_guard_passes) simp_all
  from material_cost_noninterference [OF h1 h2] h1 h2 show ?thesis by blast
qed

section \<open>The thread rolling engine\<close>

text \<open>
  C5. For finite inputs with \<open>D > 0\<close>, a feed rate \<open>F\<close> other than zero and a tool life of
  at least one part, the script computes \<open>N = (1000 * S) / (math.pi * D)\<close>, \<open>F = N * P\<close>,
  \<open>T = L / F\<close>, the material cost \<open>volume * density * cost_per_kg / 1000\<close> with one
  division, the machine cost \<open>(machine_rate / 60) * T\<close>, the labor cost
  \<open>(operator_rate / 60) * T\<close>, the tooling cost \<open>tool_cost / tool_life_parts\<close> and their
  sum. For \<open>D = 10\<close>, \<open>P = 1.5\<close>, \<open>L = 20\<close>, \<open>S = 20\<close> the values \<open>N\<close>, \<open>F\<close> and \<open>T\<close> round
  to 636.6, 954.9 and 0.02094.
\<close>

theorem thread_formulas:
  fixes tool_life_parts :: int
  assumes "0 < D" and "(1000 * S) / (math_pi * D) * P \<noteq> 0" and "0 < tool_life_parts"
  shows "let N = (1000 * S) / (math_pi * D);
             F = N * P;
             T = L / F;
             material_cost = volume * density * cost_per_kg / 1000;
             machine_cost = (machine_rate / 60) * T;
             labor_cost = (operator_rate / 60) * T;
             tooling_cost = tool_cost / real_of_int tool_life_parts;
             total_cost = material_cost + machine_cost + labor_cost + tooling_cost
         in thread_calculator (Fin D) (Fin P) (Fin L) (Fin S) (Fin density) (Fin cost_per_kg)
              (Fin volume) (Fin machine_rate) (Fin operator_rate) (Fin tool_cost)
              (Fin (real_of_int tool_life_parts)) =
            Inr \<lparr>t_N = Fin N, t_F = Fin F, t_T = Fin T,
                 t_material_cost = Fin material_cost, t_machine_cost = Fin machine_cost,
                 t_labor_cost = Fin labor_cost, t_tooling_cost = Fin tooling_cost,
                 t_total_cost = Fin total_cost\<rparr> \<and>
            (D = 10 \<and> P = 3/2 \<and> L = 20 \<and> S = 20 \<longrightarrow>
               \<bar>N - 636.6\<bar> < 0.05 \<and> \<bar>F - 954.9\<bar> < 0.05 \<and> \<bar>T - 0.02094\<bar> < 0.000005)"
proof -
  from assms have "D \<noteq> 0" and "real_of_int tool_life_parts \<noteq> 0" by simp_all
  from thread_calculator_Fin [OF this(1) assms(2) this(2)] thread_scenario_bounds
  show ?thesis unfolding Let_def by blast
qed

theorem thread_formulas_witness:
  "(0::real) < 10 \<and> (1000 * 20) / (math_pi * 10) * (3/2) \<noteq> 0 \<and> (0::int) < 1000 \<and>
   (let N = (1000 * 20) / (math_pi * 10);
        F = N * (3/2);
        T = 20 / F;
        material_cost = 100 * (157/20) * 1 / 1000;
        machine_cost = (20 / 60) * T;
        labor_cost = (15 / 60) * T;
        tooling_cost = 100 / real_of_int 1000;
        total_cost = material_cost + machine_cost + labor_cost + tooling_cost
    in thread_calculator (Fin 10) (Fin (3/2)) (Fin 20) (Fin 20) (Fin (157/20)) (Fin 1)
         (Fin 100) (Fin 20) (Fin 15) (Fin 100) (Fin (real_of_int 1000)) =
       Inr \<lparr>t_N = Fin N, t_F = Fin F, t_T = Fin T,
            t_material_cost = Fin material_cost, t_machine_cost = Fin machine_cost,
            t_labor_cost = Fin labor_cost, t_tooling_cost = Fin tooling_cost,
            t_total_cost = Fin total_cost\<rparr> \<and>
       \<bar>N - 636.6\<bar> < 0.05 \<and> \<bar>F - 954.9\<bar> < 0.05 \<and> \<bar>T - 0.02094\<bar> < 0.000005)"
proof -
  have h1: "(0::real) < 10" by simp
  have h2: "(1000 * 20) / (math_pi * 10) * (3/2) \<noteq> (0::real)"
    using math_pi_pos by simp
  have h3: "(0::int) < 1000" by simp
  from thread_formulas [OF h1 h2 h3, of 20 100 "157/20" 1 20 15 100] h1 h2 h3
  show ?thesis unfolding Let_def by blast
qed

text \<open>
  C6. There is no guard in the thread calculator: a major diameter of zero, or a feed rate
  \<open>F = N * P\<close> of zero, ends in \<open>ZeroDivisionError\<close>, whatever the other inputs are.
\<close>

theorem thread_zero_feed_raises:
  assumes "D = Fin 0 \<or>
           (py_truediv (py_mul (Fin 1000) S) (py_mul (Fin math_pi) D) = Inr N \<and>
            py_mul N P = Fin 0)"
  shows "thread_calculator D P L S density cost_per_kg volume machine_rate operator_rate
           tool_cost tool_life_parts = Inl ZeroDivisionError"
  using assms
  by (auto simp: thread_calculator_def Let_def py_truediv_def split: if_splits)

theorem thread_zero_feed_raises_witness:
  "(Fin 0 = Fin 0 \<or>
      (py_truediv (py_mul (Fin 1000) (Fin 20)) (py_mul (Fin math_pi) (Fin 0)) = Inr NaN \<and>
       py_mul NaN (Fin (3/2)) = Fin 0)) \<and>
   thread_calculator (Fin 0) (Fin (3/2)) (Fin 20) (Fin 20) (Fin (157/20)) (Fin 1) (Fin 100)
     (Fin 20) (Fin 15) (Fin 100) (Fin 1000) = Inl ZeroDivisionError \<and>
   (Fin 10 = Fin 0 \<or>
      (py_truediv (py_mul (Fin 1000) (Fin 0)) (py_mul (Fin math_pi) (Fin 10)) = Inr (Fin 0) \<and>
       py_mul (Fin 0) (Fin (3/2)) = Fin 0)) \<and>
   thread_calculator (Fin 10) (Fin (3/2)) (Fin 20) (Fin 0) (Fin (157/20)) (Fin 1) (Fin 100)
     (Fin 20) (Fin 15) (Fin 100) (Fin 1000) = Inl ZeroDivisionError"
proof -
  have h1: "Fin 0 = Fin 0 \<or>
      (py_truediv (py_mul (Fin 1000) (Fin 20)) (py_mul (Fin math_pi) (Fin 0)) = Inr NaN \<and>
       py_mul NaN (Fin (3/2)) = Fin 0)" by simp
  have h2: "Fin 10 = Fin 0 \<or>
      (py_truediv (py_mul (Fin 1000) (Fin 0)) (py_mul (Fin math_pi) (Fin 10)) = Inr (Fin 0) \<and>
       py_mul (Fin 0) (Fin (3/2)) = Fin 0)"
    using math_pi_pos by (simp add: py_truediv_def)
  from thread_zero_feed_raises [OF h1] thread_zero_feed_raises [OF h2] h1 h2
  show ?thesis by blast
qed

section \<open>The bulk calculation\<close>

text \<open>
  C7. The claim holds of a call with Python numbers (\<open>python_zero_diameter_raises\<close>), but
  the bulk branch is the one caller that can pass a final diameter of zero, and it does not
  raise: on a file of numbers the row holds numpy scalars, line 22 gives a spindle speed of
  \<open>+inf\<close>, the guard of line 24 passes, and the row gets a machining time of 0 and finite
  costs. The single branch rejects such a diameter at line 207; the bulk branch has no
  such check.
\<close>

theorem bulk_zero_diameter_returns:
  "bulk_calculation (Fin 38) (Fin (157/20)) (Fin 55) (Fin (1/5)) (Fin 20) (Fin 800)
     [''length'', ''dia'', ''chamfer''] [NumpyRow [Fin 250, Fin 0, Fin 5]] =
   Inr [\<lparr>materialCost = material_cost_of (Fin 250) (Fin 38) (Fin (157/20)) (Fin 55),
         machiningCost = Fin (200 / 3),
         totalCost = py_add (material_cost_of (Fin 250) (Fin 38) (Fin (157/20)) (Fin 55))
                       (Fin (200 / 3)),
         machiningTime = Fin 0, totalTime = Fin 5\<rparr>]"
  by (simp add: bulk_calculation_def row_lambda_numpy [OF getitem_three_columns]
      numpy_zero_diameter)




end
